theory Spec2Isabelle
  imports Main "HOL-Library.Sublist"
begin

section \<open>Python strings\<close>

text \<open>
  A Python \<open>str\<close> is modelled as a \<open>string\<close>: a list of characters, each one a code
  point below 256. The helpers below are the \<open>str\<close> methods the services call.
\<close>

text \<open>
  \<open>str.isspace\<close> on one character: the code points below 256 that Python counts as
  whitespace (\<open>\t \n \v \f \r\<close>, the separators 0x1C to 0x1F, the blank, NEL and the
  no-break space).
\<close>

definition py_isspace :: "char \<Rightarrow> bool" where
  "py_isspace c =
     (c \<in> set [CHR 0x09, CHR 0x0A, CHR 0x0B, CHR 0x0C, CHR 0x0D,
                CHR 0x1C, CHR 0x1D, CHR 0x1E, CHR 0x1F, CHR 0x20, CHR 0x85, CHR 0xA0])"

definition lstrip :: "string \<Rightarrow> string" where
  "lstrip s = dropWhile py_isspace s"

definition rstrip :: "string \<Rightarrow> string" where
  "rstrip s = rev (dropWhile py_isspace (rev s))"

text \<open>\<open>s.strip()\<close>\<close>

definition strip :: "string \<Rightarrow> string" where
  "strip s = rstrip (lstrip s)"

text \<open>\<open>s.startswith(p)\<close>\<close>

definition startswith :: "string \<Rightarrow> string \<Rightarrow> bool" where
  "startswith s p = (take (length p) s = p)"

text \<open>\<open>s.endswith(p)\<close>\<close>

definition endswith :: "string \<Rightarrow> string \<Rightarrow> bool" where
  "endswith s p = (length p \<le> length s \<and> drop (length s - length p) s = p)"

text \<open>
  \<open>s.split(None, 1)\<close>: leading whitespace is skipped, the first word runs to the next
  whitespace, and what follows that whitespace is kept whole (trailing whitespace
  included). No word gives the empty list, no remainder gives one part.
\<close>

definition split_none_1 :: "string \<Rightarrow> string list" where
  "split_none_1 s =
     (let t = lstrip s;
          w = takeWhile (\<lambda>c. \<not> py_isspace c) t;
          r = lstrip (dropWhile (\<lambda>c. \<not> py_isspace c) t)
      in if w = [] then [] else if r = [] then [w] else [w, r])"

text \<open>\<open>s.split(c)\<close> with a one-character separator: never the empty list.\<close>

fun split_on :: "char \<Rightarrow> string \<Rightarrow> string list" where
  "split_on c [] = [[]]"
| "split_on c (x # xs) =
     (if x = c then [] # split_on c xs
      else case split_on c xs of
             w # ws \<Rightarrow> (x # w) # ws
           | [] \<Rightarrow> [[x]])"

text \<open>\<open>sep.join(parts)\<close>\<close>

fun join_with :: "string \<Rightarrow> string list \<Rightarrow> string" where
  "join_with s [] = []"
| "join_with s [w] = w"
| "join_with s (w # ws) = w @ s @ join_with s ws"

section \<open>Repository status (git\_service.py)\<close>

text \<open>The dataclass \<open>GitStatus\<close> of models.py.\<close>

record GitStatus =
  branch :: string
  modified_files :: "string list"
  staged_files :: "string list"
  untracked_files :: "string list"

text \<open>
  The body of the loop of \<open>GitService.get_status\<close> over the lines of
  \<open>git status --porcelain\<close>: a line shorter than 3 is skipped; \<open>status_code\<close> is
  \<open>line[:2]\<close> and \<open>file_path\<close> is \<open>line[3:]\<close>; the three tests are an
  \<open>if\<close>/\<open>elif\<close>/\<open>elif\<close> chain with no \<open>else\<close>.
\<close>

definition status_line :: "string \<Rightarrow> GitStatus \<Rightarrow> GitStatus" where
  "status_line line st =
     (if length line < 3 then st
      else
        let status_code = take 2 line;
            file_path = drop 3 line
        in if status_code ! 0 \<in> set ''MADRC''
             then st\<lparr>staged_files := staged_files st @ [file_path]\<rparr>
           else if status_code ! 1 \<in> set ''MD''
             then st\<lparr>modified_files := modified_files st @ [file_path]\<rparr>
           else if status_code = ''??''
             then st\<lparr>untracked_files := untracked_files st @ [file_path]\<rparr>
           else st)"

text \<open>
  \<open>get_status\<close> from the point where git has answered: \<open>br\<close> is the branch name and
  \<open>lines\<close> is \<open>status_result.stdout.splitlines()\<close>. The three lists start empty.
\<close>

definition get_status :: "string \<Rightarrow> string list \<Rightarrow> GitStatus" where
  "get_status br lines =
     fold status_line lines
       \<lparr>branch = br, modified_files = [], staged_files = [], untracked_files = []\<rparr>"

text \<open>The three tests of the chain, each with the tests before it failing.\<close>

definition is_staged :: "string \<Rightarrow> bool" where
  "is_staged l = (3 \<le> length l \<and> l ! 0 \<in> set ''MADRC'')"

definition is_modified :: "string \<Rightarrow> bool" where
  "is_modified l = (3 \<le> length l \<and> l ! 0 \<notin> set ''MADRC'' \<and> l ! 1 \<in> set ''MD'')"

definition is_untracked :: "string \<Rightarrow> bool" where
  "is_untracked l =
     (3 \<le> length l \<and> l ! 0 \<notin> set ''MADRC'' \<and> l ! 1 \<notin> set ''MD'' \<and> take 2 l = ''??'')"

section \<open>Exceptions\<close>

text \<open>
  The Python exceptions the services raise or catch, each with the text \<open>str(e)\<close>
  gives (for a \<open>KeyError\<close> the key in quotes). \<open>TimeoutExpired\<close> is
  \<open>subprocess.TimeoutExpired\<close>; the others are built in.
\<close>

datatype exn =
    ValueError string
  | FileNotFoundError string
  | FileExistsError string
  | IsADirectoryError string
  | NotADirectoryError string
  | IndexError string
  | KeyError string
  | TimeoutExpired string
  | OSError string

fun exn_str :: "exn \<Rightarrow> string" where
  "exn_str (ValueError m) = m"
| "exn_str (FileNotFoundError m) = m"
| "exn_str (FileExistsError m) = m"
| "exn_str (IsADirectoryError m) = m"
| "exn_str (NotADirectoryError m) = m"
| "exn_str (IndexError m) = m"
| "exn_str (KeyError k) = [CHR 0x27] @ k @ [CHR 0x27]"
| "exn_str (TimeoutExpired m) = m"
| "exn_str (OSError m) = m"

section \<open>Paths (os.path on POSIX)\<close>

text \<open>\<open>os.path.isabs\<close>\<close>

definition isabs :: "string \<Rightarrow> bool" where
  "isabs s = startswith s ''/''"

text \<open>
  \<open>os.path.join(a, b)\<close> with one component: an absolute \<open>b\<close> replaces \<open>a\<close>; otherwise
  \<open>b\<close> is appended, after a separator unless \<open>a\<close> is empty or ends with one.
\<close>

definition path_join :: "string \<Rightarrow> string \<Rightarrow> string" where
  "path_join a b =
     (if startswith b ''/'' then b
      else if a = [] \<or> endswith a ''/'' then a @ b
      else a @ ''/'' @ b)"

text \<open>
  The loop of \<open>os.path.normpath\<close> over the components: empty and \<open>.\<close> components are
  dropped; \<open>..\<close> removes the component before it, is dropped at the top of an absolute
  path, and is kept at the top of a relative one or after another kept \<open>..\<close>.
  \<open>rooted\<close> is \<open>initial_slashes\<close> read as a truth value.
\<close>

fun norm_comps :: "bool \<Rightarrow> string list \<Rightarrow> string list \<Rightarrow> string list" where
  "norm_comps rooted [] new_comps = new_comps"
| "norm_comps rooted (seg # comps) new_comps =
     (if seg = [] \<or> seg = ''.'' then norm_comps rooted comps new_comps
      else if seg \<noteq> ''..'' \<or> (\<not> rooted \<and> new_comps = [])
                \<or> (new_comps \<noteq> [] \<and> last new_comps = ''..'')
        then norm_comps rooted comps (new_comps @ [seg])
      else if new_comps \<noteq> [] then norm_comps rooted comps (butlast new_comps)
      else norm_comps rooted comps new_comps)"

text \<open>
  \<open>os.path.normpath\<close>: the empty path is \<open>.\<close>; exactly two leading slashes are kept,
  one or three and more become one.
\<close>

definition normpath :: "string \<Rightarrow> string" where
  "normpath path =
     (if path = [] then ''.''
      else
        let initial_slashes =
              (if startswith path ''/''
               then (if startswith path ''//'' \<and> \<not> startswith path ''///'' then 2 else 1)
               else (0::nat));
            comps = norm_comps (initial_slashes \<noteq> 0) (split_on CHR ''/'' path) [];
            joined = replicate initial_slashes CHR ''/'' @ join_with ''/'' comps
        in if joined = [] then ''.'' else joined)"


section \<open>Path confinement (file\_service.py)\<close>

text \<open>
  \<open>FileService._get_full_path\<close>: the empty path is the workspace directory; any other
  path is joined to it and normalised, and refused with \<open>ValueError\<close> unless the result,
  as a string, starts with the workspace directory.
\<close>

definition get_full_path :: "string \<Rightarrow> string \<Rightarrow> exn + string" where
  "get_full_path workspace_dir relative_path =
     (if relative_path = [] then Inr workspace_dir
      else
        let full_path = normpath (path_join workspace_dir relative_path)
        in if \<not> startswith full_path workspace_dir
           then Inl (ValueError ''Path outside workspace not allowed'')
           else Inr full_path)"

text \<open>
  What the specification means by a path inside the workspace root: the root itself, or
  a path that continues the root after a separator. (The code never computes this; it
  is the yardstick the containment check is measured against.)
\<close>

definition inside_root :: "string \<Rightarrow> string \<Rightarrow> bool" where
  "inside_root root p =
     (p = root \<or> startswith p (if endswith root ''/'' then root else root @ ''/''))"

section \<open>Word splitting (shlex.split)\<close>

text \<open>
  \<open>shlex.split(s)\<close> runs Python's \<open>shlex\<close> lexer in POSIX mode with
  \<open>whitespace_split\<close> set and no comment characters. Its whitespace is blank, tab,
  carriage return and line feed; its quotes are \<open>'\<close> and \<open>"\<close>; its escape is the
  backslash, honoured outside quotes and inside double quotes.
\<close>

definition shlex_whitespace :: "char \<Rightarrow> bool" where
  "shlex_whitespace c = (c \<in> set [CHR 0x20, CHR 0x09, CHR 0x0D, CHR 0x0A])"

definition shlex_quote :: "char \<Rightarrow> bool" where
  "shlex_quote c = (c \<in> set [CHR 0x27, CHR 0x22])"

definition shlex_escape :: "char \<Rightarrow> bool" where
  "shlex_escape c = (c = CHR 0x5C)"

text \<open>
  The lexer's \<open>state\<close>: \<open>' '\<close> between words, \<open>'a'\<close> inside a word, a quote
  character inside quotes, and the escape character, which carries \<open>escapedstate\<close>:
  \<open>None\<close> for \<open>'a'\<close>, the quote for an escape inside quotes.
\<close>

datatype lex_state = Blank | InWord | InQuote char | InEscape "char option"

text \<open>A token is emitted: it heads the tokens of the rest, unless the rest raises.\<close>

fun emit :: "string \<Rightarrow> exn + string list \<Rightarrow> exn + string list" where
  "emit tok (Inl e) = Inl e"
| "emit tok (Inr ts) = Inr (tok # ts)"

text \<open>
  \<open>read_token\<close>, called until the input ends: one step per character, with the state,
  the flag \<open>quoted\<close> and the token read so far. A token ends at whitespace or at the
  end of the input; an empty token is emitted only when it was quoted. The input
  ending inside quotes or after an escape raises \<open>ValueError\<close>.
\<close>

fun shlex_run :: "lex_state \<Rightarrow> bool \<Rightarrow> string \<Rightarrow> string \<Rightarrow> exn + string list" where
  "shlex_run Blank quoted tok [] = Inr []"
| "shlex_run InWord quoted tok [] = (if tok = [] \<and> \<not> quoted then Inr [] else Inr [tok])"
| "shlex_run (InQuote q) quoted tok [] = Inl (ValueError ''No closing quotation'')"
| "shlex_run (InEscape es) quoted tok [] = Inl (ValueError ''No escaped character'')"
| "shlex_run Blank quoted tok (c # cs) =
     (if shlex_whitespace c then
        (if tok \<noteq> [] \<or> quoted then emit tok (shlex_run Blank False [] cs)
         else shlex_run Blank quoted tok cs)
      else if shlex_escape c then shlex_run (InEscape None) quoted tok cs
      else if shlex_quote c then shlex_run (InQuote c) quoted tok cs
      else shlex_run InWord quoted [c] cs)"
| "shlex_run InWord quoted tok (c # cs) =
     (if shlex_whitespace c then
        (if tok \<noteq> [] \<or> quoted then emit tok (shlex_run Blank False [] cs)
         else shlex_run Blank quoted tok cs)
      else if shlex_quote c then shlex_run (InQuote c) quoted tok cs
      else if shlex_escape c then shlex_run (InEscape None) quoted tok cs
      else shlex_run InWord quoted (tok @ [c]) cs)"
| "shlex_run (InQuote q) quoted tok (c # cs) =
     (if c = q then shlex_run InWord True tok cs
      else if shlex_escape c \<and> q = CHR 0x22 then shlex_run (InEscape (Some q)) True tok cs
      else shlex_run (InQuote q) True (tok @ [c]) cs)"
| "shlex_run (InEscape es) quoted tok (c # cs) =
     (case es of
        None \<Rightarrow> shlex_run InWord quoted (tok @ [c]) cs
      | Some q \<Rightarrow>
          (if c \<noteq> CHR 0x5C \<and> c \<noteq> q
           then shlex_run (InQuote q) quoted (tok @ [CHR 0x5C] @ [c]) cs
           else shlex_run (InQuote q) quoted (tok @ [c]) cs))"

definition shlex_split :: "string \<Rightarrow> exn + string list" where
  "shlex_split s = shlex_run Blank False [] s"

section \<open>The filesystem and external processes\<close>

text \<open>
  The filesystem as the services see it through \<open>os.path.exists\<close>, \<open>os.path.isdir\<close>,
  \<open>os.makedirs\<close> and \<open>open\<close>: a map from path strings to nodes, a regular file with
  its text or a directory. Symbolic links, permissions and resource limits are left
  out: an operation fails for structural reasons only.
\<close>

datatype node = File string | Dir

type_synonym filesystem = "string \<rightharpoonup> node"

text \<open>\<open>os.path.exists\<close> and \<open>os.path.isdir\<close>\<close>

definition path_exists :: "filesystem \<Rightarrow> string \<Rightarrow> bool" where
  "path_exists fs p = (fs p \<noteq> None)"

definition isdir :: "filesystem \<Rightarrow> string \<Rightarrow> bool" where
  "isdir fs p = (fs p = Some Dir)"

text \<open>
  The outcome of \<open>subprocess.run\<close>: a \<open>CompletedProcess\<close> with stdout, stderr and
  return code, or an exception.
\<close>

datatype proc_outcome = Completed string string int | Raises exn

text \<open>
  What the operating system does with an argument vector is outside the repository: it
  is a parameter, a function from the arguments, the working directory, the
  environment and the filesystem to an outcome and the filesystem the child leaves.
\<close>

type_synonym environment = "(string \<times> string) list"

type_synonym program =
  "string list \<Rightarrow> string \<Rightarrow> environment \<Rightarrow> filesystem \<Rightarrow> proc_outcome \<times> filesystem"

text \<open>
  The world outside the service: the filesystem, and the log of the argument vectors
  handed to the operating system for execution.
\<close>

record world =
  files :: filesystem
  spawned :: "string list list"

text \<open>
  \<open>subprocess.run(args, cwd, env, capture_output, text, timeout)\<close>. An empty argument
  list raises \<open>IndexError\<close> where \<open>Popen\<close> reads \<open>args[0]\<close>, before anything is
  executed; any other list is handed to the operating system.
\<close>

definition subprocess_run ::
    "program \<Rightarrow> string list \<Rightarrow> string \<Rightarrow> environment \<Rightarrow> world \<Rightarrow> proc_outcome \<times> world" where
  "subprocess_run prog args dir ev w =
     (if args = [] then (Raises (IndexError ''list index out of range''), w)
      else
        let (r, fs') = prog args dir ev (files w)
        in (r, w\<lparr>files := fs', spawned := spawned w @ [args]\<rparr>))"

section \<open>The terminal service (terminal\_service.py)\<close>

text \<open>
  The dataclass \<open>TerminalResult\<close>; its fields \<open>output\<close> and \<open>error\<close> are
  \<open>output_text\<close> and \<open>error_text\<close> here.
\<close>

record TerminalResult =
  output_text :: string
  error_text :: string
  exit_code :: int

text \<open>
  A session dictionary: the keys \<open>cwd\<close> and \<open>env\<close>, and \<open>rows\<close> and \<open>cols\<close> once
  \<open>resize_terminal\<close> has stored them.
\<close>

record session =
  cwd :: string
  env :: environment
  rows :: "int option"
  cols :: "int option"

text \<open>The object \<open>TerminalService\<close>: \<open>workspace_dir\<close> and the dictionary \<open>sessions\<close>.\<close>

record terminal_service =
  workspace_dir :: string
  sessions :: "string \<rightharpoonup> session"

definition newline :: string where
  "newline = [CHR 0x0A]"

text \<open>
  \<open>TerminalService._handle_cd_command\<close>. It returns the result and the session, whose
  \<open>cwd\<close> is assigned only on the last path. \<open>parts[1]\<close> on a list with no second part
  raises \<open>IndexError\<close>, which the handler's own \<open>except\<close> turns into a result.
\<close>

definition handle_cd_command ::
    "string \<Rightarrow> filesystem \<Rightarrow> string \<Rightarrow> session \<Rightarrow> TerminalResult \<times> session" where
  "handle_cd_command wdir fs command sess =
     (let parts = split_none_1 (strip command);
          denied = \<lparr>output_text = [], error_text = ''Access denied: path outside workspace'' @ newline,
                    exit_code = 1\<rparr>;
          target =
            (if length parts = 1 then Inr (wdir, ''~'')
             else if length parts < 2 then
               Inl \<lparr>output_text = [], error_text = ''cd error: '' @ ''list index out of range'' @ newline,
                    exit_code = 1\<rparr>
             else
               let path = parts ! 1 in
               if isabs path then
                 (let new_path = normpath path
                  in if \<not> startswith new_path wdir then Inl denied else Inr (new_path, path))
               else
                 (let new_path = normpath (path_join (cwd sess) path)
                  in if \<not> startswith new_path wdir then Inl denied else Inr (new_path, path)))
      in case target of
           Inl r \<Rightarrow> (r, sess)
         | Inr (new_path, path_name) \<Rightarrow>
             if \<not> path_exists fs new_path then
               (\<lparr>output_text = [], error_text = ''No such file or directory: '' @ path_name @ newline,
                 exit_code = 1\<rparr>, sess)
             else if \<not> isdir fs new_path then
               (\<lparr>output_text = [], error_text = ''Not a directory: '' @ path_name @ newline,
                 exit_code = 1\<rparr>, sess)
             else
               (\<lparr>output_text = [], error_text = [], exit_code = 0\<rparr>, sess\<lparr>cwd := new_path\<rparr>))"

text \<open>The list \<open>dangerous_commands\<close> of \<open>execute_command\<close>.\<close>

definition dangerous_commands :: "string list" where
  "dangerous_commands = [''rm'', ''rmdir'', ''del'', ''format'', ''fdisk'', ''mkfs'']"

text \<open>
  The session of \<open>execute_command\<close>, \<open>resize_terminal\<close> and \<open>get_session_info\<close>: an
  unknown identifier gets a session in the workspace directory with a copy of the
  process environment.
\<close>

definition ensure_session ::
    "environment \<Rightarrow> string \<Rightarrow> terminal_service \<Rightarrow> terminal_service" where
  "ensure_session environ session_id svc =
     (if session_id \<notin> dom (sessions svc)
      then svc\<lparr>sessions := (sessions svc)(session_id \<mapsto>
             \<lparr>cwd = workspace_dir svc, env = environ, rows = None, cols = None\<rparr>)\<rparr>
      else svc)"

text \<open>
  The inner \<open>try\<close> of \<open>execute_command\<close>, after the built-in commands: split the
  command, refuse a dangerous first word, run the rest; each \<open>except\<close> clause is a case
  of the exception raised by \<open>shlex.split\<close> or \<open>subprocess.run\<close>.
\<close>

definition run_external ::
    "program \<Rightarrow> string \<Rightarrow> session \<Rightarrow> world \<Rightarrow> TerminalResult \<times> world" where
  "run_external prog command sess w =
     (let failed = (\<lambda>args e.
            case e of
              TimeoutExpired m \<Rightarrow>
                \<lparr>output_text = [], error_text = ''Command timed out after 30 seconds'' @ newline,
                 exit_code = 124\<rparr>
            | FileNotFoundError m \<Rightarrow>
                \<lparr>output_text = [],
                 error_text = ''Command not found: '' @ (if args \<noteq> [] then hd args else command)
                           @ newline,
                 exit_code = 127\<rparr>
            | _ \<Rightarrow>
                \<lparr>output_text = [], error_text = ''Error executing command: '' @ exn_str e @ newline,
                 exit_code = 1\<rparr>)
      in case shlex_split command of
           Inl e \<Rightarrow> (failed [] e, w)
         | Inr args \<Rightarrow>
             if args \<noteq> [] \<and> hd args \<in> set dangerous_commands then
               (\<lparr>output_text = [],
                 error_text = ''Command '' @ [CHR 0x22] @ hd args @ [CHR 0x22]
                           @ '' is not allowed for security reasons'' @ newline,
                 exit_code = 1\<rparr>, w)
             else
               (case subprocess_run prog args (cwd sess) (env sess) w of
                  (Completed out err rc, w') \<Rightarrow>
                    (\<lparr>output_text = out, error_text = err, exit_code = rc\<rparr>, w')
                | (Raises e, w') \<Rightarrow> (failed args e, w')))"

text \<open>
  \<open>TerminalService.execute_command\<close>: the session is created if unknown and looked up;
  \<open>cd\<close> with an argument, \<open>pwd\<close> and \<open>clear\<close> are built in; everything else goes to
  the inner \<open>try\<close>. The outer \<open>except\<close> clause turns whatever is raised outside the
  inner \<open>try\<close> into a result: here that is the \<open>KeyError\<close> of the lookup
  \<open>self.sessions[session_id]\<close>.
\<close>

definition execute_command ::
    "program \<Rightarrow> environment \<Rightarrow> string \<Rightarrow> string \<Rightarrow> terminal_service \<times> world
       \<Rightarrow> TerminalResult \<times> terminal_service \<times> world" where
  "execute_command prog environ command session_id sw =
     (let svc = ensure_session environ session_id (fst sw);
          w = snd sw
      in case sessions svc session_id of
           None \<Rightarrow>
             (\<lparr>output_text = [],
               error_text = ''Terminal error: '' @ exn_str (KeyError session_id) @ newline,
               exit_code = 1\<rparr>, svc, w)
         | Some sess \<Rightarrow>
             if startswith (strip command) ''cd '' then
               (let (r, sess') = handle_cd_command (workspace_dir svc) (files w) command sess
                in (r, svc\<lparr>sessions := (sessions svc)(session_id \<mapsto> sess')\<rparr>, w))
             else if strip command = ''pwd'' then
               (\<lparr>output_text = cwd sess @ newline, error_text = [], exit_code = 0\<rparr>, svc, w)
             else if strip command = ''clear'' then
               (\<lparr>output_text = [CHR 0x1B] @ ''[2J'' @ [CHR 0x1B] @ ''[H'', error_text = [],
                 exit_code = 0\<rparr>, svc, w)
             else
               (let (r, w') = run_external prog command sess w in (r, svc, w')))"

text \<open>
  \<open>TerminalService.resize_terminal\<close>: it has no \<open>try\<close>, so a failing lookup would
  reach the caller.
\<close>

definition resize_terminal ::
    "environment \<Rightarrow> string \<Rightarrow> int \<Rightarrow> int \<Rightarrow> terminal_service \<Rightarrow> exn + terminal_service" where
  "resize_terminal environ session_id r c svc0 =
     (let svc = ensure_session environ session_id svc0
      in case sessions svc session_id of
           None \<Rightarrow> Inl (KeyError session_id)
         | Some sess \<Rightarrow>
             Inr (svc\<lparr>sessions := (sessions svc)(session_id \<mapsto> sess\<lparr>rows := Some r, cols := Some c\<rparr>)\<rparr>))"

text \<open>
  A workspace root given by its components, to state properties for every root at once:
  a clean segment is a directory name (not empty, no separator, neither \<open>.\<close> nor
  \<open>..\<close>), and \<open>abs_path\<close> writes the absolute path with these components.
\<close>

definition clean_segment :: "string \<Rightarrow> bool" where
  "clean_segment s = (s \<noteq> [] \<and> CHR ''/'' \<notin> set s \<and> s \<noteq> ''.'' \<and> s \<noteq> ''..'')"

definition abs_path :: "string list \<Rightarrow> string" where
  "abs_path segs = concat (map (\<lambda>s. ''/'' @ s) segs)"

section \<open>Files (os and open)\<close>












section \<open>The file service (file\_service.py)\<close>






section \<open>Properties of the status parser\<close>

lemma status_line_branch: "branch (status_line l st) = branch st"
  by (simp add: status_line_def Let_def)

lemma status_line_staged:
  "staged_files (status_line l st) =
     staged_files st @ (if is_staged l then [drop 3 l] else [])"
  by (simp add: status_line_def is_staged_def Let_def)

lemma status_line_modified:
  "modified_files (status_line l st) =
     modified_files st @ (if is_modified l then [drop 3 l] else [])"
  by (simp add: status_line_def is_modified_def Let_def)

lemma status_line_untracked:
  "untracked_files (status_line l st) =
     untracked_files st @ (if is_untracked l then [drop 3 l] else [])"
  by (simp add: status_line_def is_untracked_def Let_def)

lemma fold_status_staged:
  "staged_files (fold status_line ls st) =
     staged_files st @ map (drop 3) (filter is_staged ls)"
  by (induction ls arbitrary: st) (simp_all add: status_line_staged)

lemma fold_status_modified:
  "modified_files (fold status_line ls st) =
     modified_files st @ map (drop 3) (filter is_modified ls)"
  by (induction ls arbitrary: st) (simp_all add: status_line_modified)

lemma fold_status_untracked:
  "untracked_files (fold status_line ls st) =
     untracked_files st @ map (drop 3) (filter is_untracked ls)"
  by (induction ls arbitrary: st) (simp_all add: status_line_untracked)

text \<open>
  C6, as the code has it. The parser tests the first status character against the
  letters M, A, D, R, C (not against "any non-blank"), then the second against M and D,
  then the whole code against \<open>??\<close>. The staged, modified and untracked lists are the
  path suffixes of the lines passing the first, the second and the third test, in
  order; the three tests exclude each other, so a line lands in at most one list, and a
  line passing none of them lands in no list.
\<close>

theorem get_status_classifies:
  "staged_files (get_status br ls) = map (drop 3) (filter is_staged ls)
   \<and> modified_files (get_status br ls) = map (drop 3) (filter is_modified ls)
   \<and> untracked_files (get_status br ls) = map (drop 3) (filter is_untracked ls)
   \<and> \<not> (is_staged l \<and> is_modified l)
   \<and> \<not> (is_staged l \<and> is_untracked l)
   \<and> \<not> (is_modified l \<and> is_untracked l)"
proof -
  have "\<not> (is_staged l \<and> is_modified l)"
    by (auto simp: is_staged_def is_modified_def)
  moreover have "\<not> (is_staged l \<and> is_untracked l)"
    by (auto simp: is_staged_def is_untracked_def)
  moreover have "\<not> (is_modified l \<and> is_untracked l)"
    by (auto simp: is_modified_def is_untracked_def)
  ultimately show ?thesis
    by (simp add: get_status_def fold_status_staged fold_status_modified
        fold_status_untracked)
qed

text \<open>The three lines of the specification's example, parsed through the theorem.\<close>

theorem get_status_classifies_witness:
  "staged_files (get_status ''main'' [''M  a.txt'', '' M b.txt'', ''?? c.txt'']) = [''a.txt'']
   \<and> modified_files (get_status ''main'' [''M  a.txt'', '' M b.txt'', ''?? c.txt'']) = [''b.txt'']
   \<and> untracked_files (get_status ''main'' [''M  a.txt'', '' M b.txt'', ''?? c.txt'']) = [''c.txt'']"
  using get_status_classifies [of "''main''" "[''M  a.txt'', '' M b.txt'', ''?? c.txt'']" "''M  a.txt''"]
  by (simp add: is_staged_def is_modified_def is_untracked_def)

text \<open>
  C6 as the claim words it fails: the line \<open>?? c.txt\<close> has a non-blank first status
  character and is not staged, and the unmerged line \<open>UU d.txt\<close> has non-blank first and
  second characters and lands in no list at all.
\<close>

theorem get_status_nonblank_counterexample:
  "3 \<le> length ''?? c.txt'' \<and> ''?? c.txt'' ! 0 \<noteq> CHR '' ''
   \<and> staged_files (get_status ''main'' [''?? c.txt'']) = []
   \<and> 3 \<le> length ''UU d.txt'' \<and> ''UU d.txt'' ! 0 \<noteq> CHR '' '' \<and> ''UU d.txt'' ! 1 \<noteq> CHR '' ''
   \<and> staged_files (get_status ''main'' [''UU d.txt'']) = []
   \<and> modified_files (get_status ''main'' [''UU d.txt'']) = []
   \<and> untracked_files (get_status ''main'' [''UU d.txt'']) = []"
  by (simp add: get_status_def status_line_def)

section \<open>Properties of path confinement\<close>

lemma get_full_path_empty: "get_full_path wdir [] = Inr wdir"
  by (simp add: get_full_path_def)

lemma get_full_path_startswith:
  "get_full_path wdir p = Inr full \<Longrightarrow> startswith full wdir"
  by (auto simp: get_full_path_def Let_def startswith_def split: if_splits)

lemma split_on_not_Nil: "split_on c s \<noteq> []"
  by (induction s) (auto split: list.splits)

lemma split_on_no_sep: "c \<notin> set s \<Longrightarrow> split_on c s = [s]"
  by (induction s) auto

lemma split_on_append_sep: "split_on c (a @ c # b) = split_on c a @ split_on c b"
proof (induction a)
  case Nil
  then show ?case by simp
next
  case (Cons x a)
  then show ?case
    by (cases "split_on c a") (auto simp: split_on_not_Nil)
qed

lemma split_on_seg_abs_path:
  "CHR ''/'' \<notin> set s \<Longrightarrow> list_all clean_segment ss \<Longrightarrow>
   split_on CHR ''/'' (s @ abs_path ss) = s # ss"
proof (induction ss arbitrary: s)
  case Nil
  then show ?case by (simp add: abs_path_def split_on_no_sep)
next
  case (Cons t ts)
  have t: "CHR ''/'' \<notin> set t" using Cons.prems(2) by (simp add: clean_segment_def)
  have "s @ abs_path (t # ts) = s @ CHR ''/'' # (t @ abs_path ts)"
    by (simp add: abs_path_def)
  then show ?case
    using Cons.IH [OF t] Cons.prems
    by (simp add: split_on_append_sep split_on_no_sep)
qed

lemma split_on_abs_path:
  "list_all clean_segment ss \<Longrightarrow> split_on CHR ''/'' (abs_path ss) = [] # ss"
  using split_on_seg_abs_path [of "[]" ss] by simp

lemma norm_comps_append:
  "norm_comps r (xs @ ys) acc = norm_comps r ys (norm_comps r xs acc)"
  by (induction xs arbitrary: acc) auto

lemma norm_comps_clean:
  "list_all clean_segment xs \<Longrightarrow> norm_comps r xs acc = acc @ xs"
  by (induction xs arbitrary: acc) (auto simp: clean_segment_def)

lemma join_with_concat:
  "xs \<noteq> [] \<Longrightarrow> s @ join_with s xs = concat (map (\<lambda>w. s @ w) xs)"
  by (induction s xs rule: join_with.induct) simp_all

lemma join_with_abs_path:
  "xs \<noteq> [] \<Longrightarrow> ''/'' @ join_with ''/'' xs = abs_path xs"
  unfolding abs_path_def by (rule join_with_concat)

lemma abs_path_snoc: "abs_path (xs @ [x]) = abs_path xs @ ''/'' @ x"
  by (simp add: abs_path_def)

lemma startswith_append: "startswith (a @ b) a"
  by (simp add: startswith_def)

lemma endswith_snoc: "endswith (a @ [x]) [y] = (x = y)"
  by (simp add: endswith_def)

lemma get_full_path_sibling_aux:
  assumes ne: "segs \<noteq> []" and cl: "list_all clean_segment segs"
  shows "normpath (path_join (abs_path segs) (''../'' @ last segs @ ''X'')) = abs_path segs @ ''X''"
    and "\<not> endswith (abs_path segs) ''/''"
proof -
  define root where "root = abs_path segs"
  define name where "name = last segs"
  have segs: "segs = butlast segs @ [name]" using ne by (simp add: name_def)
  have name: "clean_segment name" using ne cl by (simp add: name_def list_all_iff)
  then obtain n ns where nm: "name = ns @ [n]" "n \<noteq> CHR ''/''"
    by (metis clean_segment_def rev_exhaust in_set_conv_decomp append_Nil2 last_in_set last_snoc)
  have root_eq: "root = abs_path (butlast segs) @ ''/'' @ name"
    unfolding root_def by (subst segs) (simp add: abs_path_snoc)
  show ends: "\<not> endswith (abs_path segs) ''/''"
    using endswith_snoc [of "abs_path (butlast segs) @ ''/'' @ ns" n "CHR ''/''"] nm root_eq
    by (simp add: root_def)
  have cleanX: "clean_segment (name @ ''X'')"
    using name by (auto simp: clean_segment_def Cons_eq_append_conv append_eq_Cons_conv)
  have joined: "path_join root (''../'' @ name @ ''X'') = root @ CHR ''/'' # (''..'' @ CHR ''/'' # (name @ ''X''))"
    using ends root_eq by (simp add: path_join_def startswith_def root_def)
  have sp: "split_on CHR ''/'' (path_join root (''../'' @ name @ ''X'')) = ([] # segs) @ [''..'', name @ ''X'']"
    unfolding joined using cl cleanX
    by (simp add: split_on_append_sep split_on_abs_path root_def split_on_no_sep clean_segment_def)
  have nc: "norm_comps True (([] # segs) @ [''..'', name @ ''X'']) [] = butlast segs @ [name @ ''X'']"
  proof -
    have 1: "norm_comps True ([] # segs) [] = segs" using cl by (simp add: norm_comps_clean)
    have 2: "last segs \<noteq> ''..''" using name by (simp add: name_def clean_segment_def)
    have 3: "name @ ''X'' \<noteq> ''..''" "name @ ''X'' \<noteq> ''.''" "name @ ''X'' \<noteq> []"
      using cleanX by (simp_all add: clean_segment_def)
    have "norm_comps True (([] # segs) @ [''..'', name @ ''X'']) []
            = norm_comps True [''..'', name @ ''X''] segs"
      by (simp only: norm_comps_append 1)
    also have "\<dots> = norm_comps True [name @ ''X''] (butlast segs)"
      using ne 2 by simp
    also have "\<dots> = butlast segs @ [name @ ''X'']"
      using 3 by simp
    finally show ?thesis .
  qed
  obtain s1 ss where s1: "segs = s1 # ss" using ne by (cases segs) auto
  then have "clean_segment s1" using cl by simp
  then obtain a as where a: "s1 = a # as" "a \<noteq> CHR ''/''"
    by (cases s1) (auto simp: clean_segment_def)
  have root_form: "root = CHR ''/'' # a # (as @ abs_path ss)"
    by (simp add: root_def s1 a abs_path_def)
  have sl: "startswith (path_join root (''../'' @ name @ ''X'')) ''/''"
       "\<not> startswith (path_join root (''../'' @ name @ ''X'')) ''//''"
    unfolding joined using a by (simp_all add: root_form startswith_def)
  have "normpath (path_join root (''../'' @ name @ ''X'')) = ''/'' @ join_with ''/'' (butlast segs @ [name @ ''X''])"
    using sl sp nc joined by (simp add: normpath_def Let_def)
  also have "\<dots> = abs_path (butlast segs @ [name @ ''X''])"
    by (rule join_with_abs_path) simp
  also have "\<dots> = root @ ''X''"
    by (simp add: abs_path_snoc root_eq)
  finally show "normpath (path_join (abs_path segs) (''../'' @ last segs @ ''X'')) = abs_path segs @ ''X''"
    by (simp add: root_def name_def)
qed

text \<open>
  C3. The containment check of \<open>_get_full_path\<close> is a comparison of strings: for every
  workspace root (an absolute path of clean segments), the relative path that leaves the
  root by \<open>..\<close> and enters the sibling whose name extends the root's last segment
  (here by the letter X) is accepted, and the path returned is not inside the root.
\<close>

theorem get_full_path_accepts_sibling:
  assumes "segs \<noteq> []" and "list_all clean_segment segs"
  shows "get_full_path (abs_path segs) (''../'' @ last segs @ ''X'') = Inr (abs_path segs @ ''X'')
         \<and> \<not> inside_root (abs_path segs) (abs_path segs @ ''X'')"
  using get_full_path_sibling_aux [OF assms]
  by (simp add: get_full_path_def startswith_append inside_root_def startswith_def)

text \<open>The root \<open>/home/ws\<close> and its sibling \<open>/home/wsX\<close>.\<close>

theorem get_full_path_accepts_sibling_witness:
  "get_full_path ''/home/ws'' ''../wsX'' = Inr ''/home/wsX''
   \<and> \<not> inside_root ''/home/ws'' ''/home/wsX''"
  using get_full_path_accepts_sibling [of "[''home'', ''ws'']"]
  by (simp add: abs_path_def clean_segment_def)

text \<open>
  C2 fails on the code at the root \<open>/ws\<close> and the path \<open>../wsX/f\<close>: its normal form
  \<open>/wsX/f\<close> has left the root, and \<open>_get_full_path\<close> returns it instead of raising.
\<close>

theorem get_full_path_escape_accepted:
  "get_full_path ''/ws'' ''../wsX/f'' = Inr ''/wsX/f'' \<and> \<not> inside_root ''/ws'' ''/wsX/f''"
  by (simp add: get_full_path_def normpath_def path_join_def startswith_def endswith_def
      inside_root_def)

section \<open>Properties of the terminal service\<close>

lemma shlex_whitespace_isspace: "shlex_whitespace c \<Longrightarrow> py_isspace c"
  by (auto simp: shlex_whitespace_def py_isspace_def)

lemma isspace_not_quote: "py_isspace c \<Longrightarrow> \<not> shlex_quote c \<and> \<not> shlex_escape c"
  by (auto simp: shlex_quote_def shlex_escape_def py_isspace_def)

lemma emit_Inr: "emit tok r = Inr (t # ts) \<Longrightarrow> t = tok"
  by (cases r) auto

lemma shlex_run_first_prefix:
  "st \<noteq> Blank \<Longrightarrow> shlex_run st q tok cs = Inr (t # ts) \<Longrightarrow> prefix tok t"
proof (induction st q tok cs arbitrary: t ts rule: shlex_run.induct)
  case (1 quoted tok)
  then show ?case by simp
next
  case (2 quoted tok)
  then show ?case by (auto split: if_splits)
next
  case (3 q quoted tok)
  then show ?case by simp
next
  case (4 es quoted tok)
  then show ?case by simp
next
  case (5 quoted tok c cs)
  then show ?case by simp
next
  case (6 quoted tok c cs)
  show ?case
  proof (cases "shlex_whitespace c")
    case True
    show ?thesis
    proof (cases "tok \<noteq> [] \<or> quoted")
      case True
      with \<open>shlex_whitespace c\<close> "6.prems"(2) have "t = tok"
        by (auto dest: emit_Inr)
      then show ?thesis by simp
    next
      case False
      then show ?thesis by simp
    qed
  next
    case False
    then have "prefix (tok @ [c]) t \<or> prefix tok t"
      using "6.IH"(3,4,5) "6.prems"(2)
      by (auto split: if_splits)
    then show ?thesis by (auto dest: append_prefixD)
  qed
next
  case (7 q quoted tok c cs)
  then have "prefix (tok @ [c]) t \<or> prefix tok t"
    by (auto split: if_splits)
  then show ?case by (auto dest: append_prefixD)
next
  case (8 es quoted tok c cs)
  then have "prefix (tok @ [c]) t \<or> prefix (tok @ [CHR 0x5C] @ [c]) t"
    by (auto split: if_splits option.splits)
  then show ?case by (auto dest: append_prefixD)
qed

lemma shlex_run_first_char:
  "shlex_run Blank False [] cmd = Inr (t # ts) \<Longrightarrow> dropWhile py_isspace cmd = x # xs \<Longrightarrow>
   \<not> shlex_quote x \<Longrightarrow> \<not> shlex_escape x \<Longrightarrow> t \<noteq> [] \<and> (py_isspace (hd t) \<or> hd t = x)"
proof (induction cmd)
  case Nil
  then show ?case by simp
next
  case (Cons c cs)
  show ?case
  proof (cases "shlex_whitespace c")
    case True
    then show ?thesis
      using Cons by (simp add: shlex_whitespace_isspace)
  next
    case ws: False
    have nq: "\<not> shlex_quote c \<and> \<not> shlex_escape c"
    proof (cases "py_isspace c")
      case True
      then show ?thesis by (rule isspace_not_quote)
    next
      case False
      then have "x = c" using Cons.prems(2) by simp
      then show ?thesis using Cons.prems by simp
    qed
    then have "shlex_run InWord False [c] cs = Inr (t # ts)"
      using ws Cons.prems(1) by simp
    then have "prefix [c] t"
      by (rule shlex_run_first_prefix [rotated]) simp
    then have t: "t \<noteq> [] \<and> hd t = c" by (auto simp: prefix_def)
    show ?thesis
    proof (cases "py_isspace c")
      case True
      then show ?thesis using t by simp
    next
      case False
      then have "x = c" using Cons.prems(2) by simp
      then show ?thesis using t by simp
    qed
  qed
qed

lemma rstrip_prefix: "prefix (rstrip u) u"
proof -
  have "suffix (dropWhile py_isspace (rev u)) (rev u)" by (rule suffix_dropWhile)
  then show ?thesis
    unfolding rstrip_def by (metis rev_rev_ident suffix_to_prefix)
qed

lemma strip_first_char:
  "strip s = x # xs \<Longrightarrow> \<exists>ys. dropWhile py_isspace s = x # ys"
  using rstrip_prefix [of "lstrip s"]
  by (auto simp: strip_def lstrip_def prefix_def)

lemma ensure_session_Some:
  "\<exists>sess. sessions (ensure_session environ session_id svc) session_id = Some sess"
  by (auto simp: ensure_session_def)

lemma dangerous_first_char:
  "t \<in> set dangerous_commands \<Longrightarrow>
   t \<noteq> [] \<and> \<not> py_isspace (hd t) \<and> hd t \<noteq> CHR ''c'' \<and> hd t \<noteq> CHR ''p''"
  by (auto simp: dangerous_commands_def py_isspace_def)

lemma dangerous_not_builtin:
  assumes "shlex_split command = Inr (t # ts)" and "t \<in> set dangerous_commands"
  shows "\<not> startswith (strip command) ''cd '' \<and> strip command \<noteq> ''pwd''
         \<and> strip command \<noteq> ''clear''"
proof -
  have no: "\<not> (\<exists>x xs. strip command = x # xs \<and> (x = CHR ''c'' \<or> x = CHR ''p''))"
  proof
    assume "\<exists>x xs. strip command = x # xs \<and> (x = CHR ''c'' \<or> x = CHR ''p'')"
    then obtain x xs where s: "strip command = x # xs" and x: "x = CHR ''c'' \<or> x = CHR ''p''"
      by blast
    from s obtain ys where d: "dropWhile py_isspace command = x # ys"
      using strip_first_char by blast
    have "\<not> shlex_quote x" "\<not> shlex_escape x"
      using x by (auto simp: shlex_quote_def shlex_escape_def)
    with assms(1) d have "t \<noteq> [] \<and> (py_isspace (hd t) \<or> hd t = x)"
      unfolding shlex_split_def by (rule shlex_run_first_char)
    with dangerous_first_char [OF assms(2)] x show False by auto
  qed
  show ?thesis
  proof (intro conjI notI)
    assume "startswith (strip command) ''cd ''"
    then have "\<exists>xs. strip command = CHR ''c'' # xs"
      by (cases "strip command") (auto simp: startswith_def)
    with no show False by blast
  next
    assume "strip command = ''pwd''"
    with no show False by simp
  next
    assume "strip command = ''clear''"
    with no show False by simp
  qed
qed

text \<open>
  C4. Whenever the first word of the split command line is one of the dangerous
  commands, \<open>execute_command\<close> returns exit code 1 with the message naming that
  word, and the world (the filesystem and the log of executed argument vectors) is the
  one it was given: nothing was executed. The service changes only in that the
  session exists afterwards. No built-in command can intercept such a line.
\<close>

theorem execute_refuses_dangerous:
  assumes "shlex_split command = Inr (t # ts)" and "t \<in> set dangerous_commands"
  shows "execute_command prog environ command session_id (svc, w) =
           (\<lparr>output_text = [],
             error_text = ''Command '' @ [CHR 0x22] @ t @ [CHR 0x22]
                            @ '' is not allowed for security reasons'' @ newline,
             exit_code = 1\<rparr>,
            ensure_session environ session_id svc, w)"
proof -
  obtain sess where "sessions (ensure_session environ session_id svc) session_id = Some sess"
    using ensure_session_Some by blast
  then show ?thesis
    using dangerous_not_builtin [OF assms] assms
    by (simp add: execute_command_def run_external_def Let_def)
qed

text \<open>The specification's example \<open>rm -rf /\<close>.\<close>

theorem execute_refuses_dangerous_witness:
  "\<forall>prog environ svc w.
     fst (execute_command prog environ ''rm -rf /'' ''default'' (svc, w)) =
       \<lparr>output_text = [],
        error_text = ''Command '' @ [CHR 0x22] @ ''rm'' @ [CHR 0x22]
                       @ '' is not allowed for security reasons'' @ newline,
        exit_code = 1\<rparr>
     \<and> snd (snd (execute_command prog environ ''rm -rf /'' ''default'' (svc, w))) = w"
proof (intro allI)
  fix prog :: program and environ :: environment and svc :: terminal_service and w :: world
  show "fst (execute_command prog environ ''rm -rf /'' ''default'' (svc, w)) =
       \<lparr>output_text = [],
        error_text = ''Command '' @ [CHR 0x22] @ ''rm'' @ [CHR 0x22]
                       @ '' is not allowed for security reasons'' @ newline,
        exit_code = 1\<rparr>
     \<and> snd (snd (execute_command prog environ ''rm -rf /'' ''default'' (svc, w))) = w"
    using execute_refuses_dangerous [of "''rm -rf /''" "''rm''" "[''-rf'', ''/'']" prog environ "''default''" svc w]
    by (simp add: shlex_split_def shlex_whitespace_def shlex_quote_def shlex_escape_def
        dangerous_commands_def)
qed

lemma shlex_run_blank_whitespace:
  "list_all shlex_whitespace cs \<Longrightarrow> shlex_run Blank False [] cs = Inr []"
  by (induction cs) simp_all

lemma strip_whitespace:
  assumes "list_all shlex_whitespace cs"
  shows "strip cs = []"
proof -
  have "\<And>c. c \<in> set cs \<Longrightarrow> py_isspace c"
    using assms by (simp add: list_all_iff shlex_whitespace_isspace)
  then have d: "dropWhile py_isspace cs = []"
    by (induction cs) simp_all
  show ?thesis unfolding strip_def lstrip_def rstrip_def d by simp
qed

text \<open>
  C10. A command line that is empty or made only of the characters that \<open>shlex.split\<close>
  skips between words (blank, tab, carriage return, line feed) matches no built-in
  command; the split gives no word, \<open>subprocess.run\<close> raises on the empty list before
  anything is executed, and the generic handler returns exit code 1. The world is
  unchanged. The other whitespace characters of Python (vertical tab, form feed, the
  separators \<open>0x1C\<close> to \<open>0x1F\<close>, \<open>0x85\<close>, \<open>0xA0\<close>) are not skipped by the splitter
  and make a word, which is executed.
\<close>

theorem execute_blank_command:
  assumes "list_all shlex_whitespace command"
  shows "execute_command prog environ command session_id (svc, w) =
           (\<lparr>output_text = [],
             error_text = ''Error executing command: list index out of range'' @ newline,
             exit_code = 1\<rparr>,
            ensure_session environ session_id svc, w)"
proof -
  obtain sess where "sessions (ensure_session environ session_id svc) session_id = Some sess"
    using ensure_session_Some by blast
  then show ?thesis
    using shlex_run_blank_whitespace [OF assms] strip_whitespace [OF assms]
    by (simp add: execute_command_def run_external_def shlex_split_def subprocess_run_def
        startswith_def Let_def)
qed

text \<open>Blank, tab, blank; and the empty command line.\<close>

theorem execute_blank_command_witness:
  "\<forall>prog environ svc w.
     exit_code (fst (execute_command prog environ [CHR 0x20, CHR 0x09, CHR 0x20] ''default'' (svc, w))) = 1
     \<and> snd (snd (execute_command prog environ [CHR 0x20, CHR 0x09, CHR 0x20] ''default'' (svc, w))) = w
     \<and> exit_code (fst (execute_command prog environ [] ''default'' (svc, w))) = 1"
proof (intro allI)
  fix prog :: program and environ :: environment and svc :: terminal_service and w :: world
  show "exit_code (fst (execute_command prog environ [CHR 0x20, CHR 0x09, CHR 0x20] ''default'' (svc, w))) = 1
     \<and> snd (snd (execute_command prog environ [CHR 0x20, CHR 0x09, CHR 0x20] ''default'' (svc, w))) = w
     \<and> exit_code (fst (execute_command prog environ [] ''default'' (svc, w))) = 1"
    using execute_blank_command [of "[CHR 0x20, CHR 0x09, CHR 0x20]" prog environ "''default''" svc w]
      execute_blank_command [of "[]" prog environ "''default''" svc w]
    by (simp add: shlex_whitespace_def)
qed

lemma strip_form_feed: "strip [CHR 0x0C] = []"
  by (simp add: strip_def lstrip_def rstrip_def py_isspace_def)

lemma shlex_split_form_feed: "shlex_split [CHR 0x0C] = Inr [[CHR 0x0C]]"
  by (simp add: shlex_split_def shlex_whitespace_def shlex_quote_def shlex_escape_def)

text \<open>
  A form feed is whitespace for \<open>str.strip\<close> and a word for \<open>shlex.split\<close>: the command
  line made of it matches no built-in command, and its one word is handed to the
  operating system for execution, whatever the program does with it; where no such
  executable exists the result has exit code 127.
\<close>

theorem execute_form_feed_spawns:
  "\<forall>prog environ svc w.
     list_all py_isspace [CHR 0x0C]
     \<and> spawned (snd (snd (execute_command prog environ [CHR 0x0C] ''default'' (svc, w))))
         = spawned w @ [[[CHR 0x0C]]]
     \<and> fst (execute_command (\<lambda>args dir ev fs. (Raises (FileNotFoundError [CHR 0x0C]), fs))
              environ [CHR 0x0C] ''default'' (svc, w))
         = \<lparr>output_text = [], error_text = ''Command not found: '' @ [CHR 0x0C] @ newline,
            exit_code = 127\<rparr>"
proof (intro allI)
  fix prog :: program and environ :: environment and svc :: terminal_service and w :: world
  obtain sess where s: "sessions (ensure_session environ ''default'' svc) ''default'' = Some sess"
    using ensure_session_Some by blast
  obtain r0 fs' where p: "prog [[CHR 0x0C]] (cwd sess) (env sess) (files w) = (r0, fs')"
    by (cases "prog [[CHR 0x0C]] (cwd sess) (env sess) (files w)")
  have a: "spawned (snd (snd (execute_command prog environ [CHR 0x0C] ''default'' (svc, w))))
         = spawned w @ [[[CHR 0x0C]]]"
    using s p
    by (simp add: execute_command_def run_external_def strip_form_feed shlex_split_form_feed
        subprocess_run_def startswith_def dangerous_commands_def Let_def
        split: proc_outcome.splits)
  have b: "fst (execute_command (\<lambda>args dir ev fs. (Raises (FileNotFoundError [CHR 0x0C]), fs))
              environ [CHR 0x0C] ''default'' (svc, w))
         = \<lparr>output_text = [], error_text = ''Command not found: '' @ [CHR 0x0C] @ newline,
            exit_code = 127\<rparr>"
    using s
    by (simp add: execute_command_def run_external_def strip_form_feed shlex_split_form_feed
        subprocess_run_def startswith_def dangerous_commands_def Let_def)
  show "list_all py_isspace [CHR 0x0C]
     \<and> spawned (snd (snd (execute_command prog environ [CHR 0x0C] ''default'' (svc, w))))
         = spawned w @ [[[CHR 0x0C]]]
     \<and> fst (execute_command (\<lambda>args dir ev fs. (Raises (FileNotFoundError [CHR 0x0C]), fs))
              environ [CHR 0x0C] ''default'' (svc, w))
         = \<lparr>output_text = [], error_text = ''Command not found: '' @ [CHR 0x0C] @ newline,
            exit_code = 127\<rparr>"
    using a b by (simp add: py_isspace_def)
qed

lemma strip_cd: "strip ''cd'' = ''cd''"
  by (simp add: strip_def lstrip_def rstrip_def py_isspace_def)

lemma shlex_split_cd: "shlex_split ''cd'' = Inr [''cd'']"
  by (simp add: shlex_split_def shlex_whitespace_def shlex_quote_def shlex_escape_def)

text \<open>
  C1 fails on the code. The test for the built-in is \<open>startswith('cd ')\<close> on the
  stripped command, which the bare word \<open>cd\<close> does not pass: the handler is not
  called, the word is handed to the operating system as the argument vector
  \<open>['cd']\<close> whatever the system then does with it, and the session stays in
  \<open>/ws/sub\<close> instead of returning to the workspace directory. Where no such program
  exists the result is exit code 127.
\<close>

theorem execute_bare_cd_is_external:
  "(case execute_command prog environ ''cd'' ''default''
           (\<lparr>workspace_dir = ''/ws'',
             sessions = [''default'' \<mapsto> \<lparr>cwd = ''/ws/sub'', env = ev, rows = None, cols = None\<rparr>]\<rparr>,
            \<lparr>files = fs, spawned = []\<rparr>) of
      (r, svc', w') \<Rightarrow>
        spawned w' = [[''cd'']]
        \<and> map_option cwd (sessions svc' ''default'') = Some ''/ws/sub'')
   \<and> exit_code (fst (execute_command (\<lambda>args dir e f. (Raises (FileNotFoundError ''cd''), f))
        environ ''cd'' ''default''
           (\<lparr>workspace_dir = ''/ws'',
             sessions = [''default'' \<mapsto> \<lparr>cwd = ''/ws/sub'', env = ev, rows = None, cols = None\<rparr>]\<rparr>,
            \<lparr>files = fs, spawned = []\<rparr>))) = 127"
proof -
  obtain r0 fs' where p: "prog [''cd''] ''/ws/sub'' ev fs = (r0, fs')"
    by (cases "prog [''cd''] ''/ws/sub'' ev fs") auto
  have 1: "(case execute_command prog environ ''cd'' ''default''
           (\<lparr>workspace_dir = ''/ws'',
             sessions = [''default'' \<mapsto> \<lparr>cwd = ''/ws/sub'', env = ev, rows = None, cols = None\<rparr>]\<rparr>,
            \<lparr>files = fs, spawned = []\<rparr>) of
      (r, svc', w') \<Rightarrow>
        spawned w' = [[''cd'']]
        \<and> map_option cwd (sessions svc' ''default'') = Some ''/ws/sub'')"
    using p
    by (simp add: execute_command_def ensure_session_def strip_cd startswith_def
        run_external_def shlex_split_cd dangerous_commands_def subprocess_run_def
        Let_def split: proc_outcome.splits)
  have 2: "exit_code (fst (execute_command (\<lambda>args dir e f. (Raises (FileNotFoundError ''cd''), f))
        environ ''cd'' ''default''
           (\<lparr>workspace_dir = ''/ws'',
             sessions = [''default'' \<mapsto> \<lparr>cwd = ''/ws/sub'', env = ev, rows = None, cols = None\<rparr>]\<rparr>,
            \<lparr>files = fs, spawned = []\<rparr>))) = 127"
    by (simp add: execute_command_def ensure_session_def strip_cd startswith_def
        run_external_def shlex_split_cd dangerous_commands_def subprocess_run_def
        Let_def)
  from 1 2 show ?thesis by blast
qed

lemma strip_cd_sibling: "strip ''cd ../wsX'' = ''cd ../wsX''"
  by (simp add: strip_def lstrip_def rstrip_def py_isspace_def)

lemma split_cd_sibling: "split_none_1 ''cd ../wsX'' = [''cd'', ''../wsX'']"
  by (simp add: split_none_1_def lstrip_def py_isspace_def)

lemma normpath_sibling: "normpath (path_join ''/ws'' ''../wsX'') = ''/wsX''"
  by (simp add: normpath_def path_join_def startswith_def endswith_def)

lemma handle_cd_sibling:
  "handle_cd_command ''/ws'' [''/ws'' \<mapsto> Dir, ''/wsX'' \<mapsto> Dir] ''cd ../wsX''
     \<lparr>cwd = ''/ws'', env = ev, rows = None, cols = None\<rparr>
   = (\<lparr>output_text = [], error_text = [], exit_code = 0\<rparr>,
      \<lparr>cwd = ''/wsX'', env = ev, rows = None, cols = None\<rparr>)"
  by (simp add: handle_cd_command_def strip_cd_sibling split_cd_sibling isabs_def
      normpath_sibling startswith_def path_exists_def isdir_def Let_def)

text \<open>
  C8 fails on the code. In a fresh session of the workspace \<open>/ws\<close>, with a directory
  \<open>/wsX\<close> beside it, \<open>cd ../wsX\<close> passes the handler's prefix test and succeeds: the
  session's working directory becomes \<open>/wsX\<close>, which is not inside the workspace.
\<close>

theorem execute_cd_leaves_workspace:
  "(case execute_command prog environ ''cd ../wsX'' ''default''
           (\<lparr>workspace_dir = ''/ws'', sessions = Map.empty\<rparr>,
            \<lparr>files = [''/ws'' \<mapsto> Dir, ''/wsX'' \<mapsto> Dir], spawned = []\<rparr>) of
      (r, svc', w') \<Rightarrow>
        r = \<lparr>output_text = [], error_text = [], exit_code = 0\<rparr>
        \<and> map_option cwd (sessions svc' ''default'') = Some ''/wsX'')
   \<and> \<not> inside_root ''/ws'' ''/wsX''"
  by (simp add: execute_command_def ensure_session_def strip_cd_sibling startswith_def
      handle_cd_sibling inside_root_def endswith_def Let_def)

lemma emit_Inl: "emit tok r = Inl e \<Longrightarrow> r = Inl e"
  by (cases r) auto

lemma shlex_run_error:
  "shlex_run st q tok cs = Inl e \<Longrightarrow>
   e = ValueError ''No closing quotation'' \<or> e = ValueError ''No escaped character''"
proof (induction st q tok cs rule: shlex_run.induct)
  case (5 quoted tok c cs)
  then show ?case by (auto split: if_splits dest!: emit_Inl)
next
  case (6 quoted tok c cs)
  then show ?case by (auto split: if_splits dest!: emit_Inl)
next
  case (7 q quoted tok c cs)
  then show ?case by (auto split: if_splits)
next
  case (8 es quoted tok c cs)
  then show ?case by (auto split: if_splits option.splits)
qed (auto split: if_splits)

lemma shlex_split_error:
  "shlex_split command = Inl e \<Longrightarrow>
   e = ValueError ''No closing quotation'' \<or> e = ValueError ''No escaped character''"
  unfolding shlex_split_def by (rule shlex_run_error)

lemma execute_external:
  assumes "\<not> startswith (strip command) ''cd ''" and "strip command \<noteq> ''pwd''"
    and "strip command \<noteq> ''clear''"
    and "sessions (ensure_session environ sid svc) sid = Some sess"
  shows "fst (execute_command prog environ command sid (svc, w)) =
         fst (run_external prog command sess w)"
  using assms by (simp add: execute_command_def Let_def split_def)

lemma rstrip_last: "rstrip u \<noteq> [] \<Longrightarrow> \<not> py_isspace (last (rstrip u))"
proof -
  assume "rstrip u \<noteq> []"
  then have ne: "dropWhile py_isspace (rev u) \<noteq> []" by (simp add: rstrip_def)
  then have "\<not> py_isspace (hd (dropWhile py_isspace (rev u)))" by (rule hd_dropWhile)
  with ne show ?thesis by (simp add: rstrip_def last_rev)
qed

lemma cd_parts:
  assumes "startswith (strip command) ''cd ''"
  shows "\<exists>path. path \<noteq> [] \<and> split_none_1 (strip command) = [''cd'', path]"
proof -
  from assms obtain rest where s: "strip command = CHR ''c'' # CHR ''d'' # CHR '' '' # rest"
    by (cases "strip command"; cases "tl (strip command)"; cases "tl (tl (strip command))")
       (auto simp: startswith_def)
  have "\<not> py_isspace (last (strip command))"
    unfolding strip_def by (rule rstrip_last) (use s in \<open>simp add: strip_def\<close>)
  then have rest: "rest \<noteq> []" "\<not> py_isspace (last rest)"
    unfolding s by (auto simp: py_isspace_def split: if_splits)
  then have "last rest \<in> set rest" by simp
  with rest have d: "dropWhile py_isspace rest \<noteq> []" by (metis dropWhile_eq_Nil_conv)
  have c: "\<not> py_isspace CHR ''c''" "\<not> py_isspace CHR ''d''" "py_isspace CHR '' ''"
    by (simp_all add: py_isspace_def)
  have "split_none_1 (strip command) = [''cd'', dropWhile py_isspace rest]"
    unfolding s using c d by (simp add: split_none_1_def lstrip_def Let_def)
  with d show ?thesis by blast
qed

lemma ensure_session_workspace_dir:
  "workspace_dir (ensure_session environ sid svc) = workspace_dir svc"
  by (simp add: ensure_session_def)

lemma handle_cd_parts:
  assumes "split_none_1 (strip command) = [''cd'', path]"
  shows "handle_cd_command wdir fs command sess =
     (let new_path = (if isabs path then normpath path else normpath (path_join (cwd sess) path))
      in if \<not> startswith new_path wdir then
           (\<lparr>output_text = [], error_text = ''Access denied: path outside workspace'' @ newline,
             exit_code = 1\<rparr>, sess)
         else if \<not> path_exists fs new_path then
           (\<lparr>output_text = [], error_text = ''No such file or directory: '' @ path @ newline,
             exit_code = 1\<rparr>, sess)
         else if \<not> isdir fs new_path then
           (\<lparr>output_text = [], error_text = ''Not a directory: '' @ path @ newline,
             exit_code = 1\<rparr>, sess)
         else (\<lparr>output_text = [], error_text = [], exit_code = 0\<rparr>, sess\<lparr>cwd := new_path\<rparr>))"
  by (simp add: handle_cd_command_def assms Let_def)

lemma execute_cd:
  assumes "startswith (strip command) ''cd ''"
    and "sessions (ensure_session environ sid svc) sid = Some sess"
  shows "execute_command prog environ command sid (svc, w) =
     (fst (handle_cd_command (workspace_dir svc) (files w) command sess),
      (ensure_session environ sid svc)
        \<lparr>sessions := (sessions (ensure_session environ sid svc))
           (sid \<mapsto> snd (handle_cd_command (workspace_dir svc) (files w) command sess))\<rparr>, w)"
  using assms by (simp add: execute_command_def Let_def split_def ensure_session_workspace_dir)

lemma session_put_back:
  "sessions s sid = Some sess \<Longrightarrow> s\<lparr>sessions := (sessions s)(sid \<mapsto> sess)\<rparr> = s"
  by (simp add: map_upd_triv)

text \<open>
  C5. \<open>execute_command\<close> returns a \<open>TerminalResult\<close> on every input, and every path on
  which something fails gives exit code 1, 124 or 127 and a message. The session
  lookup succeeds always, so the outer \<open>except\<close> is never entered. For \<open>cd\<close> with an
  argument the split gives exactly the word and the path, so the handler's
  \<open>except\<close> is never entered either; the result is ``access denied'' when the target
  fails the prefix test, ``no such file or directory'' when it does not exist, ``not a
  directory'' when it is no directory, each with exit code 1 and the service and the
  world left as they were; the exit code is 0 exactly when the target passes the test
  and is a directory. For a command line that is not a built-in: a tokenization error
  gives 1 and the splitter's message; a dangerous first word gives 1 and the message
  naming it; an exception of \<open>subprocess.run\<close> gives 124 for a timeout, 127 for a missing
  executable, and 1 with the exception's text for anything else.
\<close>

theorem execute_failure_paths:
  "\<exists>sess. sessions (ensure_session environ sid svc) sid = Some sess \<and>
     (startswith (strip command) ''cd '' \<longrightarrow>
        (\<exists>path. split_none_1 (strip command) = [''cd'', path] \<and>
           (let new_path = (if isabs path then normpath path
                            else normpath (path_join (cwd sess) path));
                r = fst (execute_command prog environ command sid (svc, w))
            in (\<not> startswith new_path (workspace_dir svc) \<longrightarrow>
                  r = \<lparr>output_text = [],
                       error_text = ''Access denied: path outside workspace'' @ newline,
                       exit_code = 1\<rparr>)
             \<and> (startswith new_path (workspace_dir svc) \<and> \<not> path_exists (files w) new_path \<longrightarrow>
                  r = \<lparr>output_text = [],
                       error_text = ''No such file or directory: '' @ path @ newline,
                       exit_code = 1\<rparr>)
             \<and> (startswith new_path (workspace_dir svc) \<and> path_exists (files w) new_path
                  \<and> \<not> isdir (files w) new_path \<longrightarrow>
                  r = \<lparr>output_text = [], error_text = ''Not a directory: '' @ path @ newline,
                       exit_code = 1\<rparr>)
             \<and> (exit_code r = 0
                  \<longleftrightarrow> startswith new_path (workspace_dir svc) \<and> isdir (files w) new_path)
             \<and> (exit_code r \<noteq> 0 \<longrightarrow>
                  exit_code r = 1 \<and> error_text r \<noteq> []
                  \<and> snd (execute_command prog environ command sid (svc, w))
                      = (ensure_session environ sid svc, w)))))
     \<and> (\<not> startswith (strip command) ''cd '' \<and> strip command \<noteq> ''pwd''
         \<and> strip command \<noteq> ''clear'' \<longrightarrow>
        (\<forall>e. shlex_split command = Inl e \<longrightarrow>
           fst (execute_command prog environ command sid (svc, w)) =
             \<lparr>output_text = [], error_text = ''Error executing command: '' @ exn_str e @ newline,
              exit_code = 1\<rparr>)
        \<and> (\<forall>args. shlex_split command = Inr args \<and> args \<noteq> []
                   \<and> hd args \<in> set dangerous_commands \<longrightarrow>
           fst (execute_command prog environ command sid (svc, w)) =
             \<lparr>output_text = [],
              error_text = ''Command '' @ [CHR 0x22] @ hd args @ [CHR 0x22]
                             @ '' is not allowed for security reasons'' @ newline,
              exit_code = 1\<rparr>)
        \<and> (\<forall>args e w'.
             shlex_split command = Inr args \<and> (args = [] \<or> hd args \<notin> set dangerous_commands)
             \<and> subprocess_run prog args (cwd sess) (env sess) w = (Raises e, w') \<longrightarrow>
           fst (execute_command prog environ command sid (svc, w)) =
             (case e of
                TimeoutExpired m \<Rightarrow>
                  \<lparr>output_text = [], error_text = ''Command timed out after 30 seconds'' @ newline,
                   exit_code = 124\<rparr>
              | FileNotFoundError m \<Rightarrow>
                  \<lparr>output_text = [],
                   error_text = ''Command not found: '' @ (if args \<noteq> [] then hd args else command)
                                  @ newline,
                   exit_code = 127\<rparr>
              | _ \<Rightarrow>
                  \<lparr>output_text = [], error_text = ''Error executing command: '' @ exn_str e @ newline,
                   exit_code = 1\<rparr>)
           \<and> exit_code (fst (execute_command prog environ command sid (svc, w))) \<in> {1, 124, 127}
           \<and> error_text (fst (execute_command prog environ command sid (svc, w))) \<noteq> []))"
proof -
  obtain s0 where s0: "sessions (ensure_session environ sid svc) sid = Some s0"
    using ensure_session_Some by blast
  have cd_part: "\<exists>path. split_none_1 (strip command) = [''cd'', path] \<and>
           (let new_path = (if isabs path then normpath path
                            else normpath (path_join (cwd s0) path));
                r = fst (execute_command prog environ command sid (svc, w))
            in (\<not> startswith new_path (workspace_dir svc) \<longrightarrow>
                  r = \<lparr>output_text = [],
                       error_text = ''Access denied: path outside workspace'' @ newline,
                       exit_code = 1\<rparr>)
             \<and> (startswith new_path (workspace_dir svc) \<and> \<not> path_exists (files w) new_path \<longrightarrow>
                  r = \<lparr>output_text = [],
                       error_text = ''No such file or directory: '' @ path @ newline,
                       exit_code = 1\<rparr>)
             \<and> (startswith new_path (workspace_dir svc) \<and> path_exists (files w) new_path
                  \<and> \<not> isdir (files w) new_path \<longrightarrow>
                  r = \<lparr>output_text = [], error_text = ''Not a directory: '' @ path @ newline,
                       exit_code = 1\<rparr>)
             \<and> (exit_code r = 0
                  \<longleftrightarrow> startswith new_path (workspace_dir svc) \<and> isdir (files w) new_path)
             \<and> (exit_code r \<noteq> 0 \<longrightarrow>
                  exit_code r = 1 \<and> error_text r \<noteq> []
                  \<and> snd (execute_command prog environ command sid (svc, w))
                      = (ensure_session environ sid svc, w)))"
    if cd: "startswith (strip command) ''cd ''"
  proof -
    from cd_parts [OF cd] obtain path where parts: "split_none_1 (strip command) = [''cd'', path]"
      by blast
    note run = execute_cd [OF cd s0, of prog w]
    note hc = handle_cd_parts [OF parts, of "workspace_dir svc" "files w" s0]
    have dir_exists: "\<And>p. isdir (files w) p \<Longrightarrow> path_exists (files w) p"
      by (simp add: isdir_def path_exists_def)
    have "let new_path = (if isabs path then normpath path
                            else normpath (path_join (cwd s0) path));
                r = fst (execute_command prog environ command sid (svc, w))
            in (\<not> startswith new_path (workspace_dir svc) \<longrightarrow>
                  r = \<lparr>output_text = [],
                       error_text = ''Access denied: path outside workspace'' @ newline,
                       exit_code = 1\<rparr>)
             \<and> (startswith new_path (workspace_dir svc) \<and> \<not> path_exists (files w) new_path \<longrightarrow>
                  r = \<lparr>output_text = [],
                       error_text = ''No such file or directory: '' @ path @ newline,
                       exit_code = 1\<rparr>)
             \<and> (startswith new_path (workspace_dir svc) \<and> path_exists (files w) new_path
                  \<and> \<not> isdir (files w) new_path \<longrightarrow>
                  r = \<lparr>output_text = [], error_text = ''Not a directory: '' @ path @ newline,
                       exit_code = 1\<rparr>)
             \<and> (exit_code r = 0
                  \<longleftrightarrow> startswith new_path (workspace_dir svc) \<and> isdir (files w) new_path)
             \<and> (exit_code r \<noteq> 0 \<longrightarrow>
                  exit_code r = 1 \<and> error_text r \<noteq> []
                  \<and> snd (execute_command prog environ command sid (svc, w))
                      = (ensure_session environ sid svc, w))"
      unfolding run hc Let_def
      using session_put_back [OF s0] dir_exists
      by (auto simp: newline_def)
    with parts show ?thesis by blast
  qed
  have ext_part:
       "(\<forall>e. shlex_split command = Inl e \<longrightarrow>
           fst (execute_command prog environ command sid (svc, w)) =
             \<lparr>output_text = [], error_text = ''Error executing command: '' @ exn_str e @ newline,
              exit_code = 1\<rparr>)
        \<and> (\<forall>args. shlex_split command = Inr args \<and> args \<noteq> []
                   \<and> hd args \<in> set dangerous_commands \<longrightarrow>
           fst (execute_command prog environ command sid (svc, w)) =
             \<lparr>output_text = [],
              error_text = ''Command '' @ [CHR 0x22] @ hd args @ [CHR 0x22]
                             @ '' is not allowed for security reasons'' @ newline,
              exit_code = 1\<rparr>)
        \<and> (\<forall>args e w'.
             shlex_split command = Inr args \<and> (args = [] \<or> hd args \<notin> set dangerous_commands)
             \<and> subprocess_run prog args (cwd s0) (env s0) w = (Raises e, w') \<longrightarrow>
           fst (execute_command prog environ command sid (svc, w)) =
             (case e of
                TimeoutExpired m \<Rightarrow>
                  \<lparr>output_text = [], error_text = ''Command timed out after 30 seconds'' @ newline,
                   exit_code = 124\<rparr>
              | FileNotFoundError m \<Rightarrow>
                  \<lparr>output_text = [],
                   error_text = ''Command not found: '' @ (if args \<noteq> [] then hd args else command)
                                  @ newline,
                   exit_code = 127\<rparr>
              | _ \<Rightarrow>
                  \<lparr>output_text = [], error_text = ''Error executing command: '' @ exn_str e @ newline,
                   exit_code = 1\<rparr>)
           \<and> exit_code (fst (execute_command prog environ command sid (svc, w))) \<in> {1, 124, 127}
           \<and> error_text (fst (execute_command prog environ command sid (svc, w))) \<noteq> [])"
    if nb: "\<not> startswith (strip command) ''cd '' \<and> strip command \<noteq> ''pwd''
         \<and> strip command \<noteq> ''clear''"
  proof -
    from nb have nb1: "\<not> startswith (strip command) ''cd ''" and nb2: "strip command \<noteq> ''pwd''"
      and nb3: "strip command \<noteq> ''clear''" by simp_all
    note ext = execute_external [OF nb1 nb2 nb3 s0]
    show ?thesis
    proof (intro conjI allI impI)
      fix e assume "shlex_split command = Inl e"
      then show "fst (execute_command prog environ command sid (svc, w)) =
          \<lparr>output_text = [], error_text = ''Error executing command: '' @ exn_str e @ newline,
           exit_code = 1\<rparr>"
        using shlex_split_error [of command e]
        by (auto simp: ext run_external_def)
    next
      fix args
      assume "shlex_split command = Inr args \<and> args \<noteq> [] \<and> hd args \<in> set dangerous_commands"
      then show "fst (execute_command prog environ command sid (svc, w)) =
          \<lparr>output_text = [],
           error_text = ''Command '' @ [CHR 0x22] @ hd args @ [CHR 0x22]
                          @ '' is not allowed for security reasons'' @ newline,
           exit_code = 1\<rparr>"
        by (simp add: ext run_external_def)
    next
      fix args e w'
      assume a: "shlex_split command = Inr args \<and> (args = [] \<or> hd args \<notin> set dangerous_commands)
          \<and> subprocess_run prog args (cwd s0) (env s0) w = (Raises e, w')"
      then show r: "fst (execute_command prog environ command sid (svc, w)) =
          (case e of
             TimeoutExpired m \<Rightarrow>
               \<lparr>output_text = [], error_text = ''Command timed out after 30 seconds'' @ newline,
                exit_code = 124\<rparr>
           | FileNotFoundError m \<Rightarrow>
               \<lparr>output_text = [],
                error_text = ''Command not found: '' @ (if args \<noteq> [] then hd args else command)
                               @ newline,
                exit_code = 127\<rparr>
           | _ \<Rightarrow>
               \<lparr>output_text = [], error_text = ''Error executing command: '' @ exn_str e @ newline,
                exit_code = 1\<rparr>)"
        by (auto simp: ext run_external_def)
      show "exit_code (fst (execute_command prog environ command sid (svc, w))) \<in> {1, 124, 127}"
        unfolding r by (cases e) simp_all
      show "error_text (fst (execute_command prog environ command sid (svc, w))) \<noteq> []"
        unfolding r by (cases e) (simp_all add: newline_def)
    qed
  qed
  from s0 cd_part ext_part show ?thesis by blast
qed

lemma strip_sleep: "strip ''sleep 60'' = ''sleep 60''"
  by (simp add: strip_def lstrip_def rstrip_def py_isspace_def)

lemma shlex_split_sleep: "shlex_split ''sleep 60'' = Inr [''sleep'', ''60'']"
  by (simp add: shlex_split_def shlex_whitespace_def shlex_quote_def shlex_escape_def)

lemma strip_open_quote: "strip [CHR ''e'', CHR ''c'', CHR ''h'', CHR ''o'', CHR '' '', CHR 0x27, CHR ''a''] = [CHR ''e'', CHR ''c'', CHR ''h'', CHR ''o'', CHR '' '', CHR 0x27, CHR ''a'']"
  by (simp add: strip_def lstrip_def rstrip_def py_isspace_def)

lemma shlex_split_open_quote:
  "shlex_split [CHR ''e'', CHR ''c'', CHR ''h'', CHR ''o'', CHR '' '', CHR 0x27, CHR ''a''] = Inl (ValueError ''No closing quotation'')"
  by (simp add: shlex_split_def shlex_whitespace_def shlex_quote_def shlex_escape_def)

lemma strip_cd_etc: "strip ''cd /etc'' = ''cd /etc''"
  by (simp add: strip_def lstrip_def rstrip_def py_isspace_def)

lemma split_cd_etc: "split_none_1 ''cd /etc'' = [''cd'', ''/etc'']"
  by (simp add: split_none_1_def lstrip_def py_isspace_def)

lemma normpath_etc: "normpath ''/etc'' = ''/etc''"
  by (simp add: normpath_def startswith_def)

lemma strip_cd_missing: "strip ''cd missing'' = ''cd missing''"
  by (simp add: strip_def lstrip_def rstrip_def py_isspace_def)

lemma split_cd_missing: "split_none_1 ''cd missing'' = [''cd'', ''missing'']"
  by (simp add: split_none_1_def lstrip_def py_isspace_def)

lemma normpath_missing: "normpath (path_join ''/ws'' ''missing'') = ''/ws/missing''"
  by (simp add: normpath_def path_join_def startswith_def endswith_def)

lemma strip_cd_f: "strip ''cd f'' = ''cd f''"
  by (simp add: strip_def lstrip_def rstrip_def py_isspace_def)

lemma split_cd_f: "split_none_1 ''cd f'' = [''cd'', ''f'']"
  by (simp add: split_none_1_def lstrip_def py_isspace_def)

lemma normpath_f: "normpath (path_join ''/ws'' ''f'') = ''/ws/f''"
  by (simp add: normpath_def path_join_def startswith_def endswith_def)

text \<open>
  In the workspace \<open>/ws\<close> holding the file \<open>f\<close>: \<open>cd\<close> to a path outside, to a missing
  path and to the file. And a command that times out, one whose executable is missing,
  one that the system refuses to start, and one with an unclosed quote.
\<close>

theorem execute_failure_paths_witness:
  "\<forall>prog environ.
     fst (execute_command prog environ ''cd /etc'' ''default''
           (\<lparr>workspace_dir = ''/ws'', sessions = Map.empty\<rparr>,
            \<lparr>files = [''/ws'' \<mapsto> Dir, ''/ws/f'' \<mapsto> File []], spawned = []\<rparr>))
       = \<lparr>output_text = [], error_text = ''Access denied: path outside workspace'' @ newline,
          exit_code = 1\<rparr>
     \<and> fst (execute_command prog environ ''cd missing'' ''default''
           (\<lparr>workspace_dir = ''/ws'', sessions = Map.empty\<rparr>,
            \<lparr>files = [''/ws'' \<mapsto> Dir, ''/ws/f'' \<mapsto> File []], spawned = []\<rparr>))
       = \<lparr>output_text = [], error_text = ''No such file or directory: missing'' @ newline,
          exit_code = 1\<rparr>
     \<and> fst (execute_command prog environ ''cd f'' ''default''
           (\<lparr>workspace_dir = ''/ws'', sessions = Map.empty\<rparr>,
            \<lparr>files = [''/ws'' \<mapsto> Dir, ''/ws/f'' \<mapsto> File []], spawned = []\<rparr>))
       = \<lparr>output_text = [], error_text = ''Not a directory: f'' @ newline, exit_code = 1\<rparr>
     \<and> (\<forall>svc w.
         exit_code (fst (execute_command (\<lambda>args dir ev fs. (Raises (TimeoutExpired ''sleep''), fs))
            environ ''sleep 60'' ''default'' (svc, w))) = 124
         \<and> exit_code (fst (execute_command (\<lambda>args dir ev fs. (Raises (FileNotFoundError ''sleep''), fs))
            environ ''sleep 60'' ''default'' (svc, w))) = 127
         \<and> exit_code (fst (execute_command (\<lambda>args dir ev fs. (Raises (OSError ''Exec format error''), fs))
            environ ''sleep 60'' ''default'' (svc, w))) = 1
         \<and> fst (execute_command (\<lambda>args dir ev fs. (Raises (OSError []), fs))
            environ [CHR ''e'', CHR ''c'', CHR ''h'', CHR ''o'', CHR '' '', CHR 0x27, CHR ''a''] ''default'' (svc, w)) =
              \<lparr>output_text = [],
               error_text = ''Error executing command: No closing quotation'' @ newline,
               exit_code = 1\<rparr>)"
proof (intro allI conjI)
  fix prog :: program and environ :: environment
  let ?svc = "\<lparr>workspace_dir = ''/ws'', sessions = Map.empty\<rparr>"
  let ?w = "\<lparr>files = [''/ws'' \<mapsto> Dir, ''/ws/f'' \<mapsto> File []], spawned = []\<rparr>"
  show "fst (execute_command prog environ ''cd /etc'' ''default'' (?svc, ?w))
       = \<lparr>output_text = [], error_text = ''Access denied: path outside workspace'' @ newline,
          exit_code = 1\<rparr>"
    using execute_failure_paths [of environ "''default''" ?svc "''cd /etc''" prog ?w]
    by (elim exE conjE)
       (simp add: strip_cd_etc split_cd_etc normpath_etc isabs_def startswith_def Let_def)
  show "fst (execute_command prog environ ''cd missing'' ''default'' (?svc, ?w))
       = \<lparr>output_text = [], error_text = ''No such file or directory: missing'' @ newline,
          exit_code = 1\<rparr>"
    using execute_failure_paths [of environ "''default''" ?svc "''cd missing''" prog ?w]
    by (elim exE conjE)
       (auto simp add: strip_cd_missing split_cd_missing normpath_missing isabs_def startswith_def
          ensure_session_def path_exists_def Let_def)
  show "fst (execute_command prog environ ''cd f'' ''default'' (?svc, ?w))
       = \<lparr>output_text = [], error_text = ''Not a directory: f'' @ newline, exit_code = 1\<rparr>"
    using execute_failure_paths [of environ "''default''" ?svc "''cd f''" prog ?w]
    by (elim exE conjE)
       (auto simp add: strip_cd_f split_cd_f normpath_f isabs_def startswith_def
          ensure_session_def path_exists_def isdir_def Let_def)
next
  fix prog :: program and environ :: environment and svc :: terminal_service and w :: world
  have nb: "\<not> startswith (strip ''sleep 60'') ''cd ''" "strip ''sleep 60'' \<noteq> ''pwd''"
    "strip ''sleep 60'' \<noteq> ''clear''"
    by (simp_all add: strip_sleep startswith_def)
  have nd: "hd [''sleep'', ''60''] \<notin> set dangerous_commands"
    by (simp add: dangerous_commands_def)
  have run: "\<And>e sess. subprocess_run (\<lambda>args dir ev fs. (Raises e, fs)) [''sleep'', ''60'']
               (cwd sess) (env sess) w
             = (Raises e, w\<lparr>files := files w, spawned := spawned w @ [[''sleep'', ''60'']]\<rparr>)"
    by (simp add: subprocess_run_def)
  have gen: "exit_code (fst (execute_command (\<lambda>args dir ev fs. (Raises e, fs))
        environ ''sleep 60'' ''default'' (svc, w))) =
      exit_code (case e of
             TimeoutExpired m \<Rightarrow>
               \<lparr>output_text = [], error_text = ''Command timed out after 30 seconds'' @ newline,
                exit_code = 124\<rparr>
           | FileNotFoundError m \<Rightarrow>
               \<lparr>output_text = [],
                error_text = ''Command not found: '' @ ''sleep'' @ newline,
                exit_code = 127\<rparr>
           | _ \<Rightarrow>
               \<lparr>output_text = [], error_text = ''Error executing command: '' @ exn_str e @ newline,
                exit_code = 1\<rparr>)" for e
    using execute_failure_paths [of environ "''default''" svc "''sleep 60''"
        "\<lambda>args dir ev fs. (Raises e, fs)" w] nb nd
    by (elim exE conjE) (cases e; simp add: shlex_split_sleep run)
  have nbq: "\<not> startswith (strip [CHR ''e'', CHR ''c'', CHR ''h'', CHR ''o'', CHR '' '', CHR 0x27, CHR ''a'']) ''cd ''"
    "strip [CHR ''e'', CHR ''c'', CHR ''h'', CHR ''o'', CHR '' '', CHR 0x27, CHR ''a''] \<noteq> ''pwd''"
    "strip [CHR ''e'', CHR ''c'', CHR ''h'', CHR ''o'', CHR '' '', CHR 0x27, CHR ''a''] \<noteq> ''clear''"
    by (simp_all add: strip_open_quote startswith_def)
  have q: "fst (execute_command (\<lambda>args dir ev fs. (Raises (OSError []), fs))
        environ [CHR ''e'', CHR ''c'', CHR ''h'', CHR ''o'', CHR '' '', CHR 0x27, CHR ''a''] ''default'' (svc, w)) =
          \<lparr>output_text = [],
           error_text = ''Error executing command: No closing quotation'' @ newline,
           exit_code = 1\<rparr>"
    using execute_failure_paths [of environ "''default''" svc
        "[CHR ''e'', CHR ''c'', CHR ''h'', CHR ''o'', CHR '' '', CHR 0x27, CHR ''a'']"
        "\<lambda>args dir ev fs. (Raises (OSError []), fs)" w] nbq shlex_split_open_quote
    by (elim exE conjE) simp
  show "exit_code (fst (execute_command (\<lambda>args dir ev fs. (Raises (TimeoutExpired ''sleep''), fs))
            environ ''sleep 60'' ''default'' (svc, w))) = 124"
    using gen [of "TimeoutExpired ''sleep''"] by simp
  show "exit_code (fst (execute_command (\<lambda>args dir ev fs. (Raises (FileNotFoundError ''sleep''), fs))
            environ ''sleep 60'' ''default'' (svc, w))) = 127"
    using gen [of "FileNotFoundError ''sleep''"] by simp
  show "exit_code (fst (execute_command (\<lambda>args dir ev fs. (Raises (OSError ''Exec format error''), fs))
            environ ''sleep 60'' ''default'' (svc, w))) = 1"
    using gen [of "OSError ''Exec format error''"] by simp
  show "fst (execute_command (\<lambda>args dir ev fs. (Raises (OSError []), fs))
            environ [CHR ''e'', CHR ''c'', CHR ''h'', CHR ''o'', CHR '' '', CHR 0x27, CHR ''a''] ''default'' (svc, w)) =
              \<lparr>output_text = [],
               error_text = ''Error executing command: No closing quotation'' @ newline,
               exit_code = 1\<rparr>"
    by (rule q)
qed

section \<open>Properties of the file service\<close>
























lemma clean_ws: "list_all clean_segment [''ws'']"
  by (simp add: clean_segment_def)










end
